theory Spec2Isabelle
  imports Main "HOL-Library.Word" "HOL-Library.Signed_Division"
begin

unbundle bit_operations_syntax

section \<open>The file-transfer coordinator (client/file_transfer.cc)\<close>

subsection \<open>Data\<close>

text \<open>
  Modelled from the spec: \<open>FileTransfer::Error::Type\<close> and
  \<open>FileTransfer::Error::Action\<close>, declared in client/file_transfer.h, which is not
  among the sources; the enumerators are those of the specification's data model, which
  are the ones the code names. The action flags are or-ed into a \<open>uint32_t\<close> mask in
  the source; their numeric values are in the missing header, so a mask is a set of actions
  here: \<open>|\<close> is union and \<open>0\<close> is the empty set.
\<close>

datatype ErrorType =
  QUEUE | CREATE_DIRECTORY | CREATE_FILE | OPEN_FILE | ALREADY_EXISTS | WRITE_FILE
  | READ_FILE | OTHER

datatype Action =
  ACTION_ASK | ACTION_ABORT | ACTION_SKIP | ACTION_SKIP_ALL | ACTION_REPLACE
  | ACTION_REPLACE_ALL

text \<open>
  Modelled from the spec: \<open>proto::FileError\<close> (a generated protobuf header, not among
  the sources): the three codes the coordinator tests, and every other code.
\<close>

datatype FileError =
  FILE_ERROR_SUCCESS | FILE_ERROR_UNKNOWN | FILE_ERROR_PATH_ALREADY_EXISTS
  | FILE_ERROR_OTHER nat

datatype FileTaskTarget = LOCAL | REMOTE

datatype TransferType = DOWNLOADER | UPLOADER

type_synonym ByteArray = "8 word list"

record FilePacket =
  packet_data :: ByteArray
  packet_flags :: "32 word"

text \<open>
  Modelled from the spec: \<open>proto::FileRequest\<close>, a oneof of the request kinds;
  \<open>has_x()\<close> of the source is a match on the constructor. \<open>no_request\<close> is a message
  with no member set. A task (\<open>FileTransferTask\<close>, of the missing header) has the
  accessors the code calls.
\<close>

datatype FileRequest =
  create_directory_request string
  | upload_request string bool
  | download_request string
  | packet_request "32 word"
  | packet FilePacket
  | list_request string
  | no_request

record FileReply =
  error_code :: FileError
  reply_packet :: FilePacket

record FileTransferTask =
  sourcePath :: string
  targetPath :: string
  isDirectory :: bool
  task_size :: int
  overwrite :: bool

record Error =
  err_type :: ErrorType
  err_code :: FileError
  err_path :: string

text \<open>
  Modelled from the spec: the flag values of \<open>proto::FilePacket\<close> and
  \<open>proto::FilePacketRequest\<close> (the generated protobuf headers are not among the sources):
  bit 0 of a packet's flags is \<open>LAST_PACKET\<close>, bit 0 of a packet request's flags is
  \<open>CANCEL\<close>, and \<open>NO_FLAGS\<close> is zero.
\<close>

definition LAST_PACKET :: "32 word" where
  "LAST_PACKET = 1"

definition CANCEL :: "32 word" where
  "CANCEL = 1"

definition NO_FLAGS :: "32 word" where
  "NO_FLAGS = 0"

text \<open>
  What the coordinator does to its collaborators, in the order it does it: calls of the
  window proxy, requests handed to the request consumer proxy (with the target of the
  factory that built them), the cancel timer, and the invocation of the finish callback
  (a callback is named by a number).
\<close>

datatype Effect =
  window_start
  | window_stop
  | setCurrentItem string string
  | setCurrentProgress int int
  | errorOccurred Error
  | doRequest FileTaskTarget FileRequest
  | queue_builder_start string string
  | cancel_timer_start
  | cancel_timer_stop
  | invoke_finish_callback nat

text \<open>
  The members of \<open>FileTransfer\<close>, named as in the source less the trailing
  underscore (which a name cannot end with here); \<open>type_\<close> is \<open>transfer_type\<close>. A
  \<open>std::function\<close> or a \<open>unique_ptr\<close> that may be empty is an option;
  \<open>queue_builder\<close> records whether the builder exists, \<open>cancel_timer_active\<close>
  whether \<open>cancel_timer_\<close> runs, and \<open>effects\<close> is the trace described above. The
  \<open>int64_t\<close> counters are integers: the claims are about values far from the ends of the
  64-bit range, where signed overflow would be undefined anyway.
\<close>

record FileTransfer =
  transfer_type :: TransferType
  finish_callback :: "nat option"
  request_factory_source :: "FileTaskTarget option"
  request_factory_target :: "FileTaskTarget option"
  queue_builder :: bool
  tasks :: "FileTransferTask list"
  total_size :: int
  total_transfered_size :: int
  task_transfered_size :: int
  task_percentage :: int
  total_percentage :: int
  is_canceled :: bool
  cancel_timer_active :: bool
  actions :: "ErrorType \<rightharpoonup> Action"
  effects :: "Effect list"

subsection \<open>The action table\<close>

record ActionsMap =
  am_type :: ErrorType
  available_actions :: "Action set"
  default_action :: Action

definition kActions :: "ActionsMap list" where
  "kActions =
    [\<lparr>am_type = CREATE_DIRECTORY,
      available_actions = {ACTION_ABORT, ACTION_SKIP, ACTION_SKIP_ALL},
      default_action = ACTION_ASK\<rparr>,
     \<lparr>am_type = CREATE_FILE,
      available_actions = {ACTION_ABORT, ACTION_SKIP, ACTION_SKIP_ALL},
      default_action = ACTION_ASK\<rparr>,
     \<lparr>am_type = OPEN_FILE,
      available_actions = {ACTION_ABORT, ACTION_SKIP, ACTION_SKIP_ALL},
      default_action = ACTION_ASK\<rparr>,
     \<lparr>am_type = ALREADY_EXISTS,
      available_actions =
        {ACTION_ABORT, ACTION_SKIP, ACTION_SKIP_ALL, ACTION_REPLACE, ACTION_REPLACE_ALL},
      default_action = ACTION_ASK\<rparr>,
     \<lparr>am_type = WRITE_FILE,
      available_actions = {ACTION_ABORT, ACTION_SKIP, ACTION_SKIP_ALL},
      default_action = ACTION_ASK\<rparr>,
     \<lparr>am_type = READ_FILE,
      available_actions = {ACTION_ABORT, ACTION_SKIP, ACTION_SKIP_ALL},
      default_action = ACTION_ASK\<rparr>,
     \<lparr>am_type = OTHER,
      available_actions = {ACTION_ABORT},
      default_action = ACTION_ASK\<rparr>]"

text \<open>The two loops over \<open>kActions\<close>, with the value each returns when no row matches.\<close>

fun availableActions_loop :: "ActionsMap list \<Rightarrow> ErrorType \<Rightarrow> Action set" where
  "availableActions_loop [] t = {}"
| "availableActions_loop (a # as) t =
     (if am_type a = t then available_actions a else availableActions_loop as t)"

fun defaultAction_loop :: "ActionsMap list \<Rightarrow> ErrorType \<Rightarrow> Action" where
  "defaultAction_loop [] t = ACTION_ABORT"
| "defaultAction_loop (a # as) t =
     (if am_type a = t then default_action a else defaultAction_loop as t)"

definition availableActions :: "Error \<Rightarrow> Action set" where
  "availableActions e = availableActions_loop kActions (err_type e)"

definition defaultAction :: "Error \<Rightarrow> Action" where
  "defaultAction e = defaultAction_loop kActions (err_type e)"

subsection \<open>The coordinator's operations\<close>

definition emit :: "Effect \<Rightarrow> FileTransfer \<Rightarrow> FileTransfer" where
  "emit e s = s\<lparr>effects := effects s @ [e]\<rparr>"

text \<open>
  \<open>request_consumer_proxy_->doRequest(factory->...)\<close>: the factory pointer is null until
  \<open>start\<close> has run, and a call through it then has no defined result (\<open>None\<close>).
\<close>

definition doRequest_via ::
  "FileTaskTarget option \<Rightarrow> FileRequest \<Rightarrow> FileTransfer \<Rightarrow> FileTransfer option" where
  "doRequest_via factory request s =
     (case factory of
        None \<Rightarrow> None
      | Some target \<Rightarrow> Some (emit (doRequest target request) s))"

definition onFinished :: "FileTransfer \<Rightarrow> FileTransfer" where
  "onFinished s =
     (case finish_callback s of
        None \<Rightarrow> s
      | Some callback \<Rightarrow>
          emit (invoke_finish_callback callback) (emit window_stop (s\<lparr>finish_callback := None\<rparr>)))"

definition setActionForErrorType :: "ErrorType \<Rightarrow> Action \<Rightarrow> FileTransfer \<Rightarrow> FileTransfer" where
  "setActionForErrorType error_type action s =
     s\<lparr>actions := (actions s)(error_type \<mapsto> action)\<rparr>"

text \<open>\<open>frontTask()\<close> is \<open>tasks_.front()\<close>: on an empty queue it has no defined result.\<close>

definition doFrontTask :: "bool \<Rightarrow> FileTransfer \<Rightarrow> FileTransfer option" where
  "doFrontTask ov s =
     (case tasks s of
        [] \<Rightarrow> None
      | t # ts \<Rightarrow>
          (let front_task = t\<lparr>overwrite := ov\<rparr>;
               s1 = s\<lparr>task_percentage := 0, task_transfered_size := 0,
                      tasks := front_task # ts\<rparr>;
               s2 = emit (setCurrentItem (sourcePath front_task) (targetPath front_task)) s1
           in if isDirectory front_task
              then doRequest_via (request_factory_target s2)
                     (create_directory_request (targetPath front_task)) s2
              else doRequest_via (request_factory_source s2)
                     (download_request (sourcePath front_task)) s2))"

definition doNextTask :: "FileTransfer \<Rightarrow> FileTransfer option" where
  "doNextTask s =
     (let s1 = (if is_canceled s then s\<lparr>tasks := []\<rparr> else s);
          s2 = (if tasks s1 \<noteq> [] then s1\<lparr>tasks := tl (tasks s1)\<rparr> else s1)
      in if tasks s2 = []
         then Some (onFinished
                (if cancel_timer_active s2
                 then emit cancel_timer_stop (s2\<lparr>cancel_timer_active := False\<rparr>)
                 else s2))
         else doFrontTask False s2)"

text \<open>
  \<open>NOTREACHED()\<close> is \<open>DCHECK(false)\<close> (base/logging.h): nothing happens in a build
  without \<open>DCHECK\<close>s, which is the build modelled.
\<close>

definition setAction :: "ErrorType \<Rightarrow> Action \<Rightarrow> FileTransfer \<Rightarrow> FileTransfer option" where
  "setAction error_type action s =
     (case action of
        ACTION_ABORT \<Rightarrow> Some (onFinished s)
      | ACTION_REPLACE \<Rightarrow> doFrontTask True s
      | ACTION_REPLACE_ALL \<Rightarrow> doFrontTask True (setActionForErrorType error_type action s)
      | ACTION_SKIP \<Rightarrow> doNextTask s
      | ACTION_SKIP_ALL \<Rightarrow> doNextTask (setActionForErrorType error_type action s)
      | ACTION_ASK \<Rightarrow> Some s)"

definition onError ::
  "ErrorType \<Rightarrow> FileError \<Rightarrow> string \<Rightarrow> FileTransfer \<Rightarrow> FileTransfer option" where
  "onError type code path s =
     (case actions s type of
        Some found \<Rightarrow> setAction type found s
      | None \<Rightarrow>
          Some (emit (errorOccurred
                  \<lparr>err_type = type, err_code = code, err_path = path\<rparr>) s))"

text \<open>
  The progress block of \<open>targetReply\<close> (the body of \<open>if (full_task_size && total_size_)\<close>
  and the test itself), for the front task's size. \<open>kMax\<close> is
  \<open>common::kMaxFilePacketSize\<close>, a constant of common/file_packet.h, which is not among
  the sources. C++ division of \<open>int64_t\<close> truncates: \<open>sdiv\<close>. The source narrows
  the two percentages to \<open>int\<close>; they are kept as they are computed.
\<close>

definition targetReply_progress :: "int \<Rightarrow> int \<Rightarrow> FileTransfer \<Rightarrow> FileTransfer" where
  "targetReply_progress kMax full_task_size s =
     (if full_task_size \<noteq> 0 \<and> total_size s \<noteq> 0
      then
        (let packet_size0 = kMax;
             transfered0 = task_transfered_size s + packet_size0;
             packet_size =
               (if transfered0 > full_task_size then transfered0 - full_task_size
                else packet_size0);
             transfered =
               (if transfered0 > full_task_size then full_task_size else transfered0);
             total_new = total_transfered_size s + packet_size;
             task_pct = (transfered * 100) sdiv full_task_size;
             total_pct = (total_new * 100) sdiv total_size s;
             s1 = s\<lparr>task_transfered_size := transfered, total_transfered_size := total_new\<rparr>
         in if task_pct \<noteq> task_percentage s1 \<or> total_pct \<noteq> total_percentage s1
            then emit (setCurrentProgress total_pct task_pct)
                   (s1\<lparr>task_percentage := task_pct,
                       total_percentage := total_pct\<rparr>)
            else s1)
      else s)"

definition targetReply ::
  "int \<Rightarrow> FileRequest \<Rightarrow> FileReply \<Rightarrow> FileTransfer \<Rightarrow> FileTransfer option" where
  "targetReply kMax request reply s =
     (case tasks s of
        [] \<Rightarrow> Some s
      | front_task # _ \<Rightarrow>
          (case request of
             create_directory_request _ \<Rightarrow>
               if error_code reply = FILE_ERROR_SUCCESS
                  \<or> error_code reply = FILE_ERROR_PATH_ALREADY_EXISTS
               then doNextTask s
               else onError CREATE_DIRECTORY (error_code reply) (targetPath front_task) s
           | upload_request _ _ \<Rightarrow>
               if error_code reply \<noteq> FILE_ERROR_SUCCESS
               then onError
                      (if error_code reply = FILE_ERROR_PATH_ALREADY_EXISTS
                       then ALREADY_EXISTS else CREATE_FILE)
                      (error_code reply) (targetPath front_task) s
               else doRequest_via (request_factory_source s) (packet_request NO_FLAGS) s
           | packet p \<Rightarrow>
               if error_code reply \<noteq> FILE_ERROR_SUCCESS
               then onError WRITE_FILE (error_code reply) (targetPath front_task) s
               else
                 (let s1 = targetReply_progress kMax (task_size front_task) s
                  in if packet_flags p AND LAST_PACKET \<noteq> 0
                     then doNextTask s1
                     else doRequest_via (request_factory_source s1)
                            (packet_request (if is_canceled s1 then CANCEL else NO_FLAGS)) s1)
           | _ \<Rightarrow> onError OTHER FILE_ERROR_UNKNOWN [] s))"

definition sourceReply :: "FileRequest \<Rightarrow> FileReply \<Rightarrow> FileTransfer \<Rightarrow> FileTransfer option" where
  "sourceReply request reply s =
     (case tasks s of
        [] \<Rightarrow> Some s
      | front_task # _ \<Rightarrow>
          (case request of
             download_request _ \<Rightarrow>
               if error_code reply \<noteq> FILE_ERROR_SUCCESS
               then onError OPEN_FILE (error_code reply) (sourcePath front_task) s
               else doRequest_via (request_factory_target s)
                      (upload_request (targetPath front_task) (overwrite front_task)) s
           | packet_request _ \<Rightarrow>
               if error_code reply \<noteq> FILE_ERROR_SUCCESS
               then onError READ_FILE (error_code reply) (sourcePath front_task) s
               else doRequest_via (request_factory_target s) (packet (reply_packet reply)) s
           | _ \<Rightarrow> onError OTHER FILE_ERROR_UNKNOWN [] s))"

text \<open>\<open>onReply\<close>: a request carries its target, its request message and its reply.\<close>

definition onReply ::
  "int \<Rightarrow> FileTaskTarget \<Rightarrow> FileRequest \<Rightarrow> FileReply \<Rightarrow> FileTransfer \<Rightarrow> FileTransfer option"
  where
  "onReply kMax target request reply s =
     (if transfer_type s = DOWNLOADER
      then (if target = LOCAL then targetReply kMax request reply s
            else sourceReply request reply s)
      else (if target = LOCAL then sourceReply request reply s
            else targetReply kMax request reply s))"

definition stop :: "FileTransfer \<Rightarrow> FileTransfer" where
  "stop s =
     (if queue_builder s
      then onFinished (s\<lparr>queue_builder := False\<rparr>)
      else emit cancel_timer_start (s\<lparr>is_canceled := True, cancel_timer_active := True\<rparr>))"

text \<open>
  \<open>start\<close>, up to the call that starts the queue builder; \<open>items\<close> go to the builder,
  whose code is not among the sources.
\<close>

definition start ::
  "string \<Rightarrow> string \<Rightarrow> 'i list \<Rightarrow> nat option \<Rightarrow> FileTransfer \<Rightarrow> FileTransfer" where
  "start source_path target_path items callback s =
     (let s1 = s\<lparr>finish_callback := callback,
                 request_factory_source :=
                   Some (if transfer_type s = DOWNLOADER then REMOTE else LOCAL),
                 request_factory_target :=
                   Some (if transfer_type s = DOWNLOADER then LOCAL else REMOTE)\<rparr>;
          s2 = emit window_start s1
      in emit (queue_builder_start source_path target_path) (s2\<lparr>queue_builder := True\<rparr>))"

text \<open>
  The callback \<open>start\<close> hands to the queue builder; \<open>queue\<close> and \<open>total_bytes\<close> are what
  \<open>takeQueue()\<close> and \<open>totalSize()\<close> return.
\<close>

definition onQueueBuilt ::
  "FileError \<Rightarrow> FileTransferTask list \<Rightarrow> int \<Rightarrow> FileTransfer \<Rightarrow> FileTransfer option" where
  "onQueueBuilt code queue total_bytes s =
     map_option (\<lambda>s'. s'\<lparr>queue_builder := False\<rparr>)
       (if code = FILE_ERROR_SUCCESS
        then (let s1 = s\<lparr>tasks := queue, total_size := total_bytes\<rparr>
              in if tasks s1 = [] then Some (onFinished s1) else doFrontTask False s1)
        else onError QUEUE FILE_ERROR_UNKNOWN [] s)"

text \<open>
  The constructed object. The in-class initialisers are in client/file_transfer.h, which is
  not among the sources: counters are taken as zero, flags as false, containers as empty.
\<close>

definition FileTransfer_new :: "TransferType \<Rightarrow> FileTransfer" where
  "FileTransfer_new t =
     \<lparr>transfer_type = t, finish_callback = None, request_factory_source = None,
      request_factory_target = None, queue_builder = False, tasks = [],
      total_size = 0, total_transfered_size = 0, task_transfered_size = 0,
      task_percentage = 0, total_percentage = 0, is_canceled = False,
      cancel_timer_active = False, actions = Map.empty, effects = []\<rparr>"

subsection \<open>Executions\<close>

text \<open>
  What can reach a started coordinator: the queue builder's callback (dropped once the
  builder has been destroyed), a reply, the user's choice of an action, \<open>stop\<close>, and the
  expiry of the cancel timer (which only a running timer delivers).
\<close>

datatype Event =
  QueueBuilt FileError "FileTransferTask list" int
  | Reply FileTaskTarget FileRequest FileReply
  | SetAction ErrorType Action
  | Stop
  | CancelTimerExpired

definition step :: "int \<Rightarrow> Event \<Rightarrow> FileTransfer \<Rightarrow> FileTransfer option" where
  "step kMax ev s =
     (case ev of
        QueueBuilt code queue total_bytes \<Rightarrow>
          if queue_builder s then onQueueBuilt code queue total_bytes s else Some s
      | Reply target request reply \<Rightarrow> onReply kMax target request reply s
      | SetAction error_type action \<Rightarrow> setAction error_type action s
      | Stop \<Rightarrow> Some (stop s)
      | CancelTimerExpired \<Rightarrow>
          if cancel_timer_active s
          then Some (onFinished (s\<lparr>cancel_timer_active := False\<rparr>))
          else Some s)"

fun run :: "int \<Rightarrow> Event list \<Rightarrow> FileTransfer \<Rightarrow> FileTransfer option" where
  "run kMax [] s = Some s"
| "run kMax (ev # evs) s =
     (case step kMax ev s of None \<Rightarrow> None | Some s' \<Rightarrow> run kMax evs s')"

section \<open>The server authenticator (base/net/server_authenticator.cc)\<close>

subsection \<open>Data\<close>

text \<open>
  Modelled from the spec: the enumerations of base/net/server_authenticator.h and of the
  generated protobuf headers, neither among the sources, with the enumerators of the
  specification's data model, which are the ones the code names, and the wire messages
  with the fields the specification lists. \<open>IDENTIFY_UNSUPPORTED\<close> is every value of
  the \<open>identify\<close> field that is neither \<open>IDENTIFY_SRP\<close> nor \<open>IDENTIFY_ANONYMOUS\<close>
  (the \<open>default\<close> branch of the switch).
\<close>

datatype State = STOPPED | PENDING | SUCCESS | FAILED

datatype InternalState =
  READ_CLIENT_HELLO | SEND_SERVER_HELLO | READ_IDENTIFY | SEND_SERVER_KEY_EXCHANGE
  | READ_CLIENT_KEY_EXCHANGE | SEND_SESSION_CHALLENGE | READ_SESSION_RESPONSE

datatype AnonymousAccess = ENABLE | DISABLE

datatype Identify = IDENTIFY_SRP | IDENTIFY_ANONYMOUS | IDENTIFY_UNSUPPORTED

datatype Encryption = ENCRYPTION_AES256_GCM | ENCRYPTION_CHACHA20_POLY1305

type_synonym Version = "32 word \<times> 32 word \<times> 32 word"

record ClientHello =
  ch_encryption :: "32 word"
  ch_identify :: Identify
  ch_iv :: ByteArray
  ch_public_key :: ByteArray

record ServerHello =
  sh_encryption :: Encryption
  sh_iv :: ByteArray

record SessionResponse =
  sr_session_type :: "32 word"
  sr_version :: Version

text \<open>
  The network channel, as far as the authenticator drives it: the messages handed to
  \<open>send\<close>, whether a listener is set, and whether reading is paused.
\<close>

record NetworkChannel =
  sent :: "ServerHello list"
  has_listener :: bool
  paused :: bool

text \<open>A \<open>KeyPair\<close> is valid (it holds a key) or not.\<close>

type_synonym KeyPair = "ByteArray option"

text \<open>
  The collaborators whose code is not among the sources, as parameters: the numeric value
  of each \<open>proto::Encryption\<close> enumerator (used as a bit of the client's mask),
  \<open>CPUID::hasAesNi\<close>, the protobuf parsers (\<open>None\<close> when \<open>parse\<close> returns false),
  \<open>KeyPair::fromPrivateKey\<close>, \<open>KeyPair::sessionKey\<close>, \<open>GenericHash::hash\<close> with
  BLAKE2s256, and \<open>Random::byteArray\<close>.
\<close>

record Env =
  encryption_value :: "Encryption \<Rightarrow> 32 word"
  hasAesNi :: bool
  parse_ClientHello :: "ByteArray \<Rightarrow> ClientHello option"
  parse_SessionResponse :: "ByteArray \<Rightarrow> SessionResponse option"
  KeyPair_fromPrivateKey :: "ByteArray \<Rightarrow> KeyPair"
  KeyPair_sessionKey :: "KeyPair \<Rightarrow> ByteArray \<Rightarrow> ByteArray"
  GenericHash_hash :: "ByteArray \<Rightarrow> ByteArray"
  Random_byteArray :: "nat \<Rightarrow> ByteArray"

text \<open>
  The members of \<open>ServerAuthenticator\<close> that the modelled operations read or write,
  named as in the source less the trailing underscore. \<open>channel\<close> is the
  \<open>unique_ptr\<close> (\<open>None\<close> is null), \<open>timer_running\<close> the state of \<open>timer_\<close>, and
  \<open>onComplete_calls\<close> counts the calls of \<open>delegate_->onComplete()\<close>.
\<close>

record ServerAuthenticator =
  state :: State
  internal_state :: InternalState
  channel :: "NetworkChannel option"
  timer_running :: bool
  anonymous_access :: AnonymousAccess
  key_pair :: KeyPair
  encrypt_iv :: ByteArray
  decrypt_iv :: ByteArray
  session_key :: ByteArray
  session_types :: "32 word"
  identify :: Identify
  encryption :: "32 word"
  session_type :: "32 word"
  peer_version :: Version
  onComplete_calls :: nat

definition kIvSize :: nat where
  "kIvSize = 12"

text \<open>
  Modelled from the spec: \<open>BitSet<uint32_t>::count()\<close> of base/bitset.h (not among the
  sources), the number of bits set.
\<close>

definition bitset_count :: "32 word \<Rightarrow> nat" where
  "bitset_count w = length (filter (bit w) [0..<32])"

subsection \<open>Operations\<close>

definition onFailed :: "ServerAuthenticator \<Rightarrow> ServerAuthenticator" where
  "onFailed a =
     (case channel a of
        None \<Rightarrow> a
      | Some ch \<Rightarrow>
          a\<lparr>timer_running := False, channel := None, state := FAILED,
            onComplete_calls := Suc (onComplete_calls a)\<rparr>)"

text \<open>\<open>start\<close>, given the channel it takes over.\<close>

definition ServerAuthenticator_start ::
  "NetworkChannel \<Rightarrow> ServerAuthenticator \<Rightarrow> ServerAuthenticator" where
  "ServerAuthenticator_start new_channel a =
     (if state a \<noteq> STOPPED then a
      else
        (let a1 = a\<lparr>channel := Some new_channel, state := PENDING\<rparr>
         in if anonymous_access a1 = ENABLE \<and> key_pair a1 = None then onFailed a1
            else if anonymous_access a1 = ENABLE \<and> key_pair a1 = None then onFailed a1
            else if anonymous_access a1 = ENABLE \<and> session_types a1 = 0 then onFailed a1
            else if anonymous_access a1 \<noteq> ENABLE \<and> session_types a1 \<noteq> 0 then onFailed a1
            else a1\<lparr>timer_running := True,
                    channel := Some (new_channel\<lparr>has_listener := True, paused := False\<rparr>)\<rparr>))"

definition setPrivateKey ::
  "Env \<Rightarrow> ByteArray \<Rightarrow> ServerAuthenticator \<Rightarrow> bool \<times> ServerAuthenticator" where
  "setPrivateKey env private_key a =
     (if state a \<noteq> STOPPED then (False, a)
      else if private_key = [] then (False, a)
      else
        (let a1 = a\<lparr>key_pair := KeyPair_fromPrivateKey env private_key\<rparr>
         in if key_pair a1 = None then (False, a1)
            else
              (let a2 = a1\<lparr>encrypt_iv := Random_byteArray env kIvSize\<rparr>
               in if encrypt_iv a2 = [] then (False, a2) else (True, a2))))"

definition setAnonymousAccess ::
  "AnonymousAccess \<Rightarrow> 32 word \<Rightarrow> ServerAuthenticator \<Rightarrow> bool \<times> ServerAuthenticator" where
  "setAnonymousAccess access types a =
     (if state a \<noteq> STOPPED then (False, a)
      else if access = ENABLE
      then (if key_pair a = None then (False, a)
            else if types = 0 then (False, a)
            else (True, a\<lparr>session_types := types, anonymous_access := access\<rparr>))
      else (True, a\<lparr>session_types := 0, anonymous_access := access\<rparr>))"

text \<open>
  The end of \<open>onClientHello\<close>: the choice of the cipher, the change of state and the
  sending of \<open>ServerHello\<close>, whose \<open>iv\<close> field is \<open>iv\<close>. A call through a null
  \<open>channel_\<close> has no defined result.
\<close>

definition send_ServerHello ::
  "Env \<Rightarrow> ClientHello \<Rightarrow> ByteArray \<Rightarrow> ServerAuthenticator \<Rightarrow> ServerAuthenticator option" where
  "send_ServerHello env client_hello iv a =
     (let cipher =
            (if ch_encryption client_hello AND encryption_value env ENCRYPTION_AES256_GCM \<noteq> 0
                \<and> hasAesNi env
             then ENCRYPTION_AES256_GCM else ENCRYPTION_CHACHA20_POLY1305);
          server_hello = \<lparr>sh_encryption = cipher, sh_iv = iv\<rparr>;
          a1 = a\<lparr>internal_state := SEND_SERVER_HELLO,
                 encryption := encryption_value env (sh_encryption server_hello)\<rparr>
      in case channel a1 of
           None \<Rightarrow> None
         | Some ch \<Rightarrow> Some (a1\<lparr>channel := Some (ch\<lparr>sent := sent ch @ [server_hello]\<rparr>)\<rparr>))"

text \<open>
  \<open>onClientHello\<close> from \<open>proto::ServerHello server_hello;\<close> on: the key agreement when
  a key pair is installed, then the end above.
\<close>

definition onClientHello_reply ::
  "Env \<Rightarrow> ClientHello \<Rightarrow> ServerAuthenticator \<Rightarrow> ServerAuthenticator option" where
  "onClientHello_reply env client_hello a =
     (if key_pair a \<noteq> None
      then
        (let a1 = a\<lparr>decrypt_iv := ch_iv client_hello\<rparr>
         in if decrypt_iv a1 = [] then Some (onFailed a1)
            else
              (let peer_public_key = ch_public_key client_hello
               in if peer_public_key = [] then Some (onFailed a1)
                  else
                    (let temp = KeyPair_sessionKey env (key_pair a1) peer_public_key
                     in if temp = [] then Some (onFailed a1)
                        else
                          (let a2 = a1\<lparr>session_key := GenericHash_hash env temp\<rparr>
                           in if session_key a2 = [] then Some (onFailed a2)
                              else send_ServerHello env client_hello (encrypt_iv a2) a2))))
      else send_ServerHello env client_hello [] a)"

definition onClientHello ::
  "Env \<Rightarrow> ByteArray \<Rightarrow> ServerAuthenticator \<Rightarrow> ServerAuthenticator option" where
  "onClientHello env buffer a =
     (case parse_ClientHello env buffer of
        None \<Rightarrow> Some (onFailed a)
      | Some client_hello \<Rightarrow>
          if ch_encryption client_hello AND encryption_value env ENCRYPTION_AES256_GCM = 0
             \<and> ch_encryption client_hello
                 AND encryption_value env ENCRYPTION_CHACHA20_POLY1305 = 0
          then Some (onFailed a)
          else
            (let a1 = a\<lparr>identify := ch_identify client_hello\<rparr>
             in case identify a1 of
                  IDENTIFY_SRP \<Rightarrow> onClientHello_reply env client_hello a1
                | IDENTIFY_ANONYMOUS \<Rightarrow>
                    if anonymous_access a1 = ENABLE then Some (onFailed a1)
                    else onClientHello_reply env client_hello a1
                | IDENTIFY_UNSUPPORTED \<Rightarrow> Some (onFailed a1)))"

definition onSessionResponse ::
  "Env \<Rightarrow> ByteArray \<Rightarrow> ServerAuthenticator \<Rightarrow> ServerAuthenticator option" where
  "onSessionResponse env buffer a =
     (case channel a of
        None \<Rightarrow> None
      | Some ch \<Rightarrow>
          (let a0 = a\<lparr>channel := Some (ch\<lparr>paused := True, has_listener := False\<rparr>)\<rparr>
           in case parse_SessionResponse env buffer of
                None \<Rightarrow> Some (onFailed a0)
              | Some session_response \<Rightarrow>
                  (let a1 = a0\<lparr>peer_version := sr_version session_response\<rparr>
                   in if bitset_count (sr_session_type session_response) \<noteq> 1
                      then Some (onFailed a1)
                      else
                        (let a2 = a1\<lparr>session_type := sr_session_type session_response\<rparr>
                         in if session_types a2 AND session_type a2 = 0
                            then Some (onFailed a2)
                            else Some (a2\<lparr>timer_running := False, state := SUCCESS,
                                         onComplete_calls := Suc (onComplete_calls a2)\<rparr>)))))"

text \<open>
  The constructed authenticator. The in-class initialisers are in
  base/net/server_authenticator.h, which is not among the sources; \<open>start\<close> asserts the
  internal state, and fails at once unless anonymous access is off with no session types,
  so those are the defaults; the byte arrays are empty and the key pair is not valid.
\<close>

definition ServerAuthenticator_new :: ServerAuthenticator where
  "ServerAuthenticator_new =
     \<lparr>state = STOPPED, internal_state = READ_CLIENT_HELLO, channel = None,
      timer_running = False, anonymous_access = DISABLE, key_pair = None,
      encrypt_iv = [], decrypt_iv = [], session_key = [], session_types = 0,
      identify = IDENTIFY_SRP, encryption = 0, session_type = 0, peer_version = (0, 0, 0),
      onComplete_calls = 0\<rparr>"

section \<open>Notions used in the statements\<close>

subsection \<open>Traces of the coordinator\<close>

fun is_finish :: "Effect \<Rightarrow> bool" where
  "is_finish (invoke_finish_callback c) = True"
| "is_finish e = False"

fun is_errorOccurred :: "Effect \<Rightarrow> bool" where
  "is_errorOccurred (errorOccurred e) = True"
| "is_errorOccurred e = False"

text \<open>
  \<open>stop_before_finish tr\<close>: every invocation of a finish callback in \<open>tr\<close> comes
  directly after a \<open>window_stop\<close>. \<open>stop_precedes prev tr\<close> is the same for a trace
  \<open>tr\<close> that follows the effect \<open>prev\<close>.
\<close>

fun stop_precedes :: "Effect \<Rightarrow> Effect list \<Rightarrow> bool" where
  "stop_precedes prev [] = True"
| "stop_precedes prev (e # es) =
     ((is_finish e \<longrightarrow> prev = window_stop) \<and> stop_precedes e es)"

definition stop_before_finish :: "Effect list \<Rightarrow> bool" where
  "stop_before_finish tr =
     (case tr of [] \<Rightarrow> True | e # es \<Rightarrow> \<not> is_finish e \<and> stop_precedes e es)"

text \<open>
  The invariant behind the single invocation: while a callback is held none has been
  invoked, and once it has been swapped out at most one has.
\<close>

definition finish_ok :: "nat option \<Rightarrow> Effect list \<Rightarrow> bool" where
  "finish_ok cb tr =
     (stop_before_finish tr
      \<and> (case cb of
            Some c \<Rightarrow> filter is_finish tr = []
          | None \<Rightarrow> length (filter is_finish tr) \<le> 1))"

definition finish_inv :: "FileTransfer \<Rightarrow> bool" where
  "finish_inv s = finish_ok (finish_callback s) (effects s)"

text \<open>The errors handed to the window proxy so far.\<close>

definition surfaced :: "FileTransfer \<Rightarrow> Effect list" where
  "surfaced s = filter is_errorOccurred (effects s)"

text \<open>The two actions that \<open>setAction\<close> records for the error type.\<close>

definition sticky :: "Action \<Rightarrow> bool" where
  "sticky a = (a = ACTION_SKIP_ALL \<or> a = ACTION_REPLACE_ALL)"

subsection \<open>Concrete transfers\<close>

text \<open>
  A download of a queue of files with a packet size of 1 MiB (the value of the
  specification's copy scenario): the queue builder reports \<open>queue\<close> and \<open>total_bytes\<close>,
  then the events \<open>evs\<close> arrive.
\<close>

definition ok_reply :: FileReply where
  "ok_reply = \<lparr>error_code = FILE_ERROR_SUCCESS,
               reply_packet = \<lparr>packet_data = [], packet_flags = 0\<rparr>\<rparr>"

definition file_task :: "string \<Rightarrow> int \<Rightarrow> FileTransferTask" where
  "file_task name n =
     \<lparr>sourcePath = ''/src/'' @ name, targetPath = ''/dst/'' @ name, isDirectory = False,
      task_size = n, overwrite = False\<rparr>"

definition download_of ::
  "FileTransferTask list \<Rightarrow> int \<Rightarrow> Event list \<Rightarrow> FileTransfer option" where
  "download_of queue total_bytes evs =
     run 1048576 (QueueBuilt FILE_ERROR_SUCCESS queue total_bytes # evs)
       (start ''/src'' ''/dst'' (map sourcePath queue) (Some 0) (FileTransfer_new DOWNLOADER))"

definition last_byte :: FilePacket where
  "last_byte = \<lparr>packet_data = [7], packet_flags = LAST_PACKET\<rparr>"

definition full_packet :: FilePacket where
  "full_packet = \<lparr>packet_data = replicate 4 7, packet_flags = NO_FLAGS\<rparr>"

text \<open>The replies of a complete copy of the one-byte file \<open>a\<close>.\<close>

definition one_byte_copy :: "Event list" where
  "one_byte_copy =
     [Reply REMOTE (download_request ''/src/a'') ok_reply,
      Reply LOCAL (upload_request ''/dst/a'' False) ok_reply,
      Reply REMOTE (packet_request NO_FLAGS) (ok_reply\<lparr>reply_packet := last_byte\<rparr>),
      Reply LOCAL (packet last_byte) ok_reply]"

text \<open>
  The replies of the copy of a file \<open>b\<close> up to the moment its second packet has been
  handed to the target. The first packet is a full one; the coordinator never looks at a
  packet's payload, which is cut to four bytes here.
\<close>

definition first_packet_of_b :: "Event list" where
  "first_packet_of_b =
     [Reply REMOTE (download_request ''/src/b'') ok_reply,
      Reply LOCAL (upload_request ''/dst/b'' False) ok_reply,
      Reply REMOTE (packet_request NO_FLAGS) (ok_reply\<lparr>reply_packet := full_packet\<rparr>),
      Reply LOCAL (packet full_packet) ok_reply,
      Reply REMOTE (packet_request NO_FLAGS) (ok_reply\<lparr>reply_packet := last_byte\<rparr>)]"

text \<open>
  Two files whose targets exist: the state in which the first collision has been handed
  to the window, the state after the user's \<open>ACTION_REPLACE_ALL\<close>, and the state in
  which the upload of the second file has been requested.
\<close>

definition exists_reply :: FileReply where
  "exists_reply = \<lparr>error_code = FILE_ERROR_PATH_ALREADY_EXISTS,
                   reply_packet = \<lparr>packet_data = [], packet_flags = 0\<rparr>\<rparr>"

definition first_collision :: FileTransfer where
  "first_collision =
     the (download_of [file_task ''a'' 1, file_task ''b'' 1] 2
            [Reply REMOTE (download_request ''/src/a'') ok_reply,
             Reply LOCAL (upload_request ''/dst/a'' False) exists_reply])"

definition replace_all_chosen :: FileTransfer where
  "replace_all_chosen = the (setAction ALREADY_EXISTS ACTION_REPLACE_ALL first_collision)"

definition second_upload_events :: "Event list" where
  "second_upload_events =
     [Reply REMOTE (download_request ''/src/a'') ok_reply,
      Reply LOCAL (upload_request ''/dst/a'' True) ok_reply,
      Reply REMOTE (packet_request NO_FLAGS) (ok_reply\<lparr>reply_packet := last_byte\<rparr>),
      Reply LOCAL (packet last_byte) ok_reply,
      Reply REMOTE (download_request ''/src/b'') ok_reply]"

definition second_upload :: FileTransfer where
  "second_upload = the (run 1048576 second_upload_events replace_all_chosen)"

text \<open>An upload whose queue turns out empty, stopped afterwards.\<close>

definition empty_upload :: "FileTransfer option" where
  "empty_upload =
     run 1048576 [QueueBuilt FILE_ERROR_SUCCESS [] 0, Stop, CancelTimerExpired]
       (start ''/src'' ''/dst'' [''a''] (Some 7) (FileTransfer_new UPLOADER))"

subsection \<open>Concrete handshakes\<close>

text \<open>
  Stand-ins for the collaborators of the authenticator: \<open>ENCRYPTION_AES256_GCM\<close> is bit
  0 and \<open>ENCRYPTION_CHACHA20_POLY1305\<close> bit 1 of the mask; a \<open>ClientHello\<close> is two bytes
  (the mask and the identify method, 0 for SRP and 1 for anonymous) and carries a 12-byte
  IV and a 32-byte public key; a \<open>SessionResponse\<close> is one byte, the session type; every
  non-empty private key loads; the shared secret is the peer's key and the hash keeps 32
  bytes.
\<close>

definition test_parse_ClientHello :: "ByteArray \<Rightarrow> ClientHello option" where
  "test_parse_ClientHello buffer =
     (case buffer of
        [e, i] \<Rightarrow>
          Some \<lparr>ch_encryption = ucast e,
                ch_identify =
                  (if i = 0 then IDENTIFY_SRP else if i = 1 then IDENTIFY_ANONYMOUS
                   else IDENTIFY_UNSUPPORTED),
                ch_iv = replicate 12 7, ch_public_key = replicate 32 9\<rparr>
      | _ \<Rightarrow> None)"

definition test_parse_SessionResponse :: "ByteArray \<Rightarrow> SessionResponse option" where
  "test_parse_SessionResponse buffer =
     (case buffer of
        [t] \<Rightarrow> Some \<lparr>sr_session_type = ucast t, sr_version = (2, 0, 0)\<rparr>
      | _ \<Rightarrow> None)"

definition test_env :: "bool \<Rightarrow> Env" where
  "test_env aesni =
     \<lparr>encryption_value =
        (\<lambda>e. case e of ENCRYPTION_AES256_GCM \<Rightarrow> 1 | ENCRYPTION_CHACHA20_POLY1305 \<Rightarrow> 2),
      hasAesNi = aesni,
      parse_ClientHello = test_parse_ClientHello,
      parse_SessionResponse = test_parse_SessionResponse,
      KeyPair_fromPrivateKey = Some,
      KeyPair_sessionKey = (\<lambda>kp peer. peer),
      GenericHash_hash = take 32,
      Random_byteArray = (\<lambda>n. replicate n 5)\<rparr>"

definition test_channel :: NetworkChannel where
  "test_channel = \<lparr>sent = [], has_listener = False, paused = True\<rparr>"

text \<open>
  A started authenticator with anonymous access enabled for session type \<open>0x1\<close> and a
  private key installed, and a started authenticator in its default configuration.
\<close>

definition anonymous_server :: ServerAuthenticator where
  "anonymous_server =
     ServerAuthenticator_start test_channel
       (snd (setAnonymousAccess ENABLE 1
          (snd (setPrivateKey (test_env False) [1, 2, 3] ServerAuthenticator_new))))"

definition default_server :: ServerAuthenticator where
  "default_server = ServerAuthenticator_start test_channel ServerAuthenticator_new"

text \<open>
  The default authenticator where the SRP exchange of a user allowed session type \<open>0x2\<close>
  has left it: waiting for the \<open>SessionResponse\<close>.
\<close>

definition awaiting_response :: ServerAuthenticator where
  "awaiting_response =
     default_server\<lparr>internal_state := READ_SESSION_RESPONSE, session_types := 2\<rparr>"

text \<open>The \<open>ServerHello\<close> messages on the channel after a handler has run.\<close>

definition sent_by :: "ServerAuthenticator option \<Rightarrow> ServerHello list" where
  "sent_by r =
     (case r of
        None \<Rightarrow> []
      | Some a \<Rightarrow> (case channel a of None \<Rightarrow> [] | Some ch \<Rightarrow> sent ch))"

section \<open>Properties of the file-transfer coordinator\<close>

subsection \<open>Replies on an empty queue\<close>

text \<open>
  C10. A source reply or a target reply that reaches the coordinator while the task queue
  is empty is ignored: the handler returns the state it was given, so no request is issued,
  no error is raised and no counter or other member changes. The same holds for
  \<open>onReply\<close>, which only routes to one of the two handlers.
\<close>

theorem reply_on_empty_queue_is_ignored:
  "tasks s = [] \<Longrightarrow>
     targetReply kMax request reply s = Some s
     \<and> sourceReply request reply s = Some s
     \<and> onReply kMax target request reply s = Some s"
  by (simp add: targetReply_def sourceReply_def onReply_def)

theorem reply_on_empty_queue_is_ignored_witness:
  "tasks (FileTransfer_new UPLOADER) = []
   \<and> targetReply 1048576 (packet last_byte) ok_reply (FileTransfer_new UPLOADER)
       = Some (FileTransfer_new UPLOADER)
   \<and> sourceReply (download_request ''/src/a'') exists_reply (FileTransfer_new UPLOADER)
       = Some (FileTransfer_new UPLOADER)
   \<and> onReply 1048576 REMOTE (packet last_byte) ok_reply (FileTransfer_new UPLOADER)
       = Some (FileTransfer_new UPLOADER)"
proof -
  have empty: "tasks (FileTransfer_new UPLOADER) = []"
    by (simp add: FileTransfer_new_def)
  show ?thesis
    using empty
      reply_on_empty_queue_is_ignored
        [OF empty, of 1048576 "packet last_byte" ok_reply REMOTE]
      reply_on_empty_queue_is_ignored
        [OF empty, of 1048576 "download_request ''/src/a''" exists_reply REMOTE]
    by simp
qed

subsection \<open>The action table\<close>

text \<open>
  C4. An error of type \<open>QUEUE\<close> should offer exactly \<open>ACTION_ABORT\<close> with default
  \<open>ACTION_ASK\<close>, as an error of type \<open>OTHER\<close> does. \<open>kActions\<close> has a row for
  \<open>OTHER\<close> and none for \<open>QUEUE\<close>: for \<open>QUEUE\<close> both loops run off the end of the
  table, \<open>availableActions\<close> returns the empty mask and \<open>defaultAction\<close> returns
  \<open>ACTION_ABORT\<close>.
\<close>

theorem queue_error_has_no_row_in_kActions:
  "availableActions \<lparr>err_type = QUEUE, err_code = FILE_ERROR_UNKNOWN, err_path = []\<rparr> = {}
   \<and> defaultAction \<lparr>err_type = QUEUE, err_code = FILE_ERROR_UNKNOWN, err_path = []\<rparr>
       = ACTION_ABORT
   \<and> availableActions \<lparr>err_type = OTHER, err_code = FILE_ERROR_UNKNOWN, err_path = []\<rparr>
       = {ACTION_ABORT}
   \<and> defaultAction \<lparr>err_type = OTHER, err_code = FILE_ERROR_UNKNOWN, err_path = []\<rparr>
       = ACTION_ASK"
  by (simp add: availableActions_def defaultAction_def kActions_def)

subsection \<open>Progress accounting\<close>

lemmas transfer_defs =
  download_of_def start_def FileTransfer_new_def emit_def step_def onQueueBuilt_def
  doFrontTask_def file_task_def doRequest_via_def onReply_def sourceReply_def targetReply_def
  ok_reply_def exists_reply_def last_byte_def full_packet_def LAST_PACKET_def NO_FLAGS_def
  CANCEL_def targetReply_progress_def doNextTask_def onFinished_def onError_def Let_def

text \<open>
  C2. After every processed reply \<open>total_transfered_size\<close> should be at most
  \<open>total_size\<close>. The download of a single one-byte file, all of whose requests succeed,
  ends with \<open>total_size = 1\<close> and \<open>total_transfered_size = 1048575\<close>: on the reply to
  the only packet the progress block adds the packet size to the task's count, finds the
  count beyond the task's size, and charges the excess over the size (the packet size
  less one byte) where it means to charge what was left of the task.
\<close>

theorem total_transfered_exceeds_total_size:
  "map_option total_size (download_of [file_task ''a'' 1] 1 one_byte_copy) = Some 1
   \<and> map_option total_transfered_size (download_of [file_task ''a'' 1] 1 one_byte_copy)
       = Some 1048575"
  by (simp add: transfer_defs one_byte_copy_def)

text \<open>
  C3. The charge of a packet should be the smaller of the packet size and what was left
  of the task. For a file of one byte more than a packet, the reply to the second packet
  finds 1048576 bytes of 1048577 transferred, so one byte is left; the total goes from
  1048576 to 2097151, a charge of 1048575: the excess of the count over the task's size.
\<close>

theorem last_packet_charge_is_the_excess:
  "map_option task_transfered_size
     (download_of [file_task ''b'' 1048577] 1048577 first_packet_of_b) = Some 1048576
   \<and> map_option total_transfered_size
       (download_of [file_task ''b'' 1048577] 1048577 first_packet_of_b) = Some 1048576
   \<and> map_option total_transfered_size
       (download_of [file_task ''b'' 1048577] 1048577
          (first_packet_of_b @ [Reply LOCAL (packet last_byte) ok_reply])) = Some 2097151
   \<and> min 1048576 (1048577 - 1048576) = (1::int)"
  by (simp add: transfer_defs first_packet_of_b_def)

subsection \<open>What the progress block charges\<close>

lemma total_emit [simp]: "total_transfered_size (emit e s) = total_transfered_size s"
  by (simp add: emit_def)

lemma total_onFinished [simp]: "total_transfered_size (onFinished s) = total_transfered_size s"
  by (simp add: onFinished_def split: option.splits)

lemma total_doRequest_via:
  "doRequest_via f r s = Some s' \<Longrightarrow> total_transfered_size s' = total_transfered_size s"
  by (auto simp: doRequest_via_def split: option.splits)

lemma total_doFrontTask:
  "doFrontTask ov s = Some s' \<Longrightarrow> total_transfered_size s' = total_transfered_size s"
  unfolding doFrontTask_def Let_def
  by (auto split: list.splits if_splits dest!: total_doRequest_via)

lemma total_doNextTask:
  "doNextTask s = Some s' \<Longrightarrow> total_transfered_size s' = total_transfered_size s"
  unfolding doNextTask_def Let_def
  by (auto split: if_splits dest!: total_doFrontTask)

lemma total_setAction:
  "setAction t a s = Some s' \<Longrightarrow> total_transfered_size s' = total_transfered_size s"
  unfolding setAction_def setActionForErrorType_def
  by (cases a) (auto dest!: total_doFrontTask total_doNextTask)

lemma total_onError:
  "onError t c p s = Some s' \<Longrightarrow> total_transfered_size s' = total_transfered_size s"
  unfolding onError_def
  by (auto split: option.splits dest!: total_setAction)

text \<open>
  The charge of one packet, as the code computes it: nothing for a task of size zero or a
  transfer of total size zero; else the packet size, unless that takes the task's count
  beyond the task's size, and then the excess of the count over the size.
\<close>

theorem packet_charge:
  "total_transfered_size (targetReply_progress kMax full_task_size s)
     - total_transfered_size s
   = (if full_task_size = 0 \<or> total_size s = 0 then 0
      else if task_transfered_size s + kMax > full_task_size
      then task_transfered_size s + kMax - full_task_size
      else kMax)"
  by (simp add: targetReply_progress_def Let_def emit_def)

theorem packet_charge_witness:
  "total_transfered_size
     (targetReply_progress 1048576 1048577
        ((FileTransfer_new DOWNLOADER)
           \<lparr>total_size := 1048577, task_transfered_size := 1048576,
             total_transfered_size := 1048576\<rparr>))
   = 2097151"
  using packet_charge [of 1048576 1048577
      "(FileTransfer_new DOWNLOADER)
         \<lparr>total_size := 1048577, task_transfered_size := 1048576,
           total_transfered_size := 1048576\<rparr>"]
  by (simp add: FileTransfer_new_def)

text \<open>
  Whenever the progress block runs, it leaves the task's count at most the task's size.
\<close>

theorem task_transfered_at_most_task_size:
  "full_task_size \<noteq> 0 \<Longrightarrow> total_size s \<noteq> 0 \<Longrightarrow>
     task_transfered_size (targetReply_progress kMax full_task_size s) \<le> full_task_size"
  by (simp add: targetReply_progress_def Let_def emit_def)

theorem task_transfered_at_most_task_size_witness:
  "(1048577::int) \<noteq> 0
   \<and> total_size ((FileTransfer_new DOWNLOADER)
         \<lparr>total_size := 1048577, task_transfered_size := 1048576\<rparr>) \<noteq> 0
   \<and> task_transfered_size
       (targetReply_progress 1048576 1048577
          ((FileTransfer_new DOWNLOADER)
             \<lparr>total_size := 1048577, task_transfered_size := 1048576\<rparr>))
     \<le> 1048577"
proof -
  have nonzero: "(1048577::int) \<noteq> 0"
    by simp
  have total: "total_size ((FileTransfer_new DOWNLOADER)
         \<lparr>total_size := 1048577, task_transfered_size := 1048576\<rparr>) \<noteq> 0"
    by (simp add: FileTransfer_new_def)
  from task_transfered_at_most_task_size [OF nonzero total, of 1048576] nonzero total
  show ?thesis by simp
qed

lemma total_targetReply_progress:
  "0 \<le> kMax \<Longrightarrow>
     total_transfered_size s \<le> total_transfered_size (targetReply_progress kMax n s)"
  by (simp add: targetReply_progress_def Let_def emit_def)

lemma total_targetReply:
  "targetReply kMax rq rp s = Some s' \<Longrightarrow> 0 \<le> kMax \<Longrightarrow>
     total_transfered_size s \<le> total_transfered_size s'"
  unfolding targetReply_def Let_def
  by (auto split: list.splits FileRequest.splits if_splits
      dest!: total_onError total_doNextTask total_doRequest_via
      simp: total_targetReply_progress)

lemma total_sourceReply:
  "sourceReply rq rp s = Some s' \<Longrightarrow> total_transfered_size s' = total_transfered_size s"
  unfolding sourceReply_def
  by (auto split: list.splits FileRequest.splits if_splits
      dest!: total_onError total_doRequest_via)

lemma total_onReply:
  "onReply kMax tg rq rp s = Some s' \<Longrightarrow> 0 \<le> kMax \<Longrightarrow>
     total_transfered_size s \<le> total_transfered_size s'"
  unfolding onReply_def
  by (auto split: if_splits dest: total_targetReply total_sourceReply)

lemma total_stop [simp]: "total_transfered_size (stop s) = total_transfered_size s"
  by (simp add: stop_def)

lemma total_onQueueBuilt:
  "onQueueBuilt c q n s = Some s' \<Longrightarrow> total_transfered_size s' = total_transfered_size s"
  unfolding onQueueBuilt_def Let_def
  by (auto split: if_splits dest!: total_onError total_doFrontTask)

lemma total_step:
  "step kMax ev s = Some s' \<Longrightarrow> 0 \<le> kMax \<Longrightarrow>
     total_transfered_size s \<le> total_transfered_size s'"
  unfolding step_def
  by (auto split: Event.splits if_splits
      dest: total_onQueueBuilt total_onReply total_setAction)

text \<open>
  With a packet size that is not negative, \<open>total_transfered_size\<close> never decreases:
  not from one processed reply to the next, and not over any other event.
\<close>

theorem total_transfered_never_decreases:
  "0 \<le> kMax \<Longrightarrow> run kMax evs s = Some s' \<Longrightarrow>
     total_transfered_size s \<le> total_transfered_size s'"
proof (induction evs arbitrary: s)
  case Nil
  then show ?case by simp
next
  case (Cons ev evs)
  from Cons.prems(2) obtain s1 where
    s1: "step kMax ev s = Some s1" and r: "run kMax evs s1 = Some s'"
    by (auto split: option.splits)
  from total_step [OF s1 Cons.prems(1)] Cons.IH [OF Cons.prems(1) r] show ?case
    by simp
qed

theorem total_transfered_never_decreases_witness:
  "(0::int) \<le> 1048576
   \<and> run 1048576 second_upload_events replace_all_chosen = Some second_upload
   \<and> total_transfered_size replace_all_chosen = 0
   \<and> total_transfered_size second_upload = 1048575
   \<and> total_transfered_size replace_all_chosen \<le> total_transfered_size second_upload"
proof -
  have size: "(0::int) \<le> 1048576"
    by simp
  have later: "run 1048576 second_upload_events replace_all_chosen = Some second_upload"
    unfolding second_upload_def replace_all_chosen_def first_collision_def
    by (simp add: transfer_defs setAction_def setActionForErrorType_def
        second_upload_events_def)
  have before: "total_transfered_size replace_all_chosen = 0"
    unfolding replace_all_chosen_def first_collision_def
    by (simp add: transfer_defs setAction_def setActionForErrorType_def)
  have after: "total_transfered_size second_upload = 1048575"
    unfolding second_upload_def replace_all_chosen_def first_collision_def
    by (simp add: transfer_defs setAction_def setActionForErrorType_def
        second_upload_events_def)
  from total_transfered_never_decreases [OF size later] size later before after
  show ?thesis by simp
qed

subsection \<open>The finish callback\<close>

lemma stop_precedes_snoc:
  "stop_precedes prev (tr @ [e]) =
     (stop_precedes prev tr \<and> (is_finish e \<longrightarrow> last (prev # tr) = window_stop))"
  by (induction tr arbitrary: prev) auto

lemma stop_before_finish_snoc:
  "stop_before_finish (tr @ [e]) =
     (stop_before_finish tr \<and> (is_finish e \<longrightarrow> tr \<noteq> [] \<and> last tr = window_stop))"
  by (cases tr) (auto simp: stop_before_finish_def stop_precedes_snoc)

lemma stop_before_finish_fire:
  assumes "stop_before_finish tr"
  shows "stop_before_finish (tr @ [window_stop, invoke_finish_callback c])"
proof -
  have "stop_before_finish (tr @ [window_stop])"
    using assms by (simp add: stop_before_finish_snoc)
  then have "stop_before_finish ((tr @ [window_stop]) @ [invoke_finish_callback c])"
    by (subst stop_before_finish_snoc) simp
  then show ?thesis by simp
qed

lemma finish_ok_emit:
  "finish_ok cb tr \<Longrightarrow> \<not> is_finish e \<Longrightarrow> finish_ok cb (tr @ [e])"
  by (auto simp: finish_ok_def stop_before_finish_snoc split: option.splits)

lemma finish_ok_fire:
  "finish_ok (Some c) tr \<Longrightarrow> finish_ok None (tr @ [window_stop, invoke_finish_callback c])"
  by (simp add: finish_ok_def stop_before_finish_fire)

lemma finish_inv_update [simp]:
  "finish_inv (s\<lparr>queue_builder := b\<rparr>) = finish_inv s"
  "finish_inv (s\<lparr>tasks := ts\<rparr>) = finish_inv s"
  "finish_inv (s\<lparr>total_size := n\<rparr>) = finish_inv s"
  "finish_inv (s\<lparr>total_transfered_size := n\<rparr>) = finish_inv s"
  "finish_inv (s\<lparr>task_transfered_size := n\<rparr>) = finish_inv s"
  "finish_inv (s\<lparr>task_percentage := n\<rparr>) = finish_inv s"
  "finish_inv (s\<lparr>total_percentage := n\<rparr>) = finish_inv s"
  "finish_inv (s\<lparr>is_canceled := b\<rparr>) = finish_inv s"
  "finish_inv (s\<lparr>cancel_timer_active := b\<rparr>) = finish_inv s"
  "finish_inv (s\<lparr>actions := m\<rparr>) = finish_inv s"
  by (simp_all add: finish_inv_def)

lemma finish_inv_emit: "finish_inv s \<Longrightarrow> \<not> is_finish e \<Longrightarrow> finish_inv (emit e s)"
  by (simp add: finish_inv_def emit_def finish_ok_emit)

lemma finish_inv_onFinished: "finish_inv s \<Longrightarrow> finish_inv (onFinished s)"
  by (auto simp: finish_inv_def onFinished_def emit_def finish_ok_fire split: option.splits)

lemma finish_inv_doRequest_via:
  "doRequest_via f r s = Some s' \<Longrightarrow> finish_inv s \<Longrightarrow> finish_inv s'"
  by (auto simp: doRequest_via_def finish_inv_emit split: option.splits)

lemma finish_inv_doFrontTask:
  "doFrontTask ov s = Some s' \<Longrightarrow> finish_inv s \<Longrightarrow> finish_inv s'"
  unfolding doFrontTask_def Let_def
  by (auto split: list.splits if_splits elim!: finish_inv_doRequest_via intro!: finish_inv_emit)

lemma finish_inv_doNextTask:
  "doNextTask s = Some s' \<Longrightarrow> finish_inv s \<Longrightarrow> finish_inv s'"
  unfolding doNextTask_def Let_def
  by (auto split: if_splits elim!: finish_inv_doFrontTask
      intro!: finish_inv_onFinished finish_inv_emit)

lemma finish_inv_setAction:
  "setAction t a s = Some s' \<Longrightarrow> finish_inv s \<Longrightarrow> finish_inv s'"
  unfolding setAction_def setActionForErrorType_def
  by (cases a)
    (auto elim!: finish_inv_doFrontTask finish_inv_doNextTask intro!: finish_inv_onFinished)

lemma finish_inv_onError:
  "onError t c p s = Some s' \<Longrightarrow> finish_inv s \<Longrightarrow> finish_inv s'"
  unfolding onError_def
  by (auto split: option.splits elim!: finish_inv_setAction intro!: finish_inv_emit)

lemma finish_inv_targetReply_progress:
  "finish_inv s \<Longrightarrow> finish_inv (targetReply_progress k n s)"
  unfolding targetReply_progress_def Let_def
  by (auto intro!: finish_inv_emit)

lemma finish_inv_targetReply:
  "targetReply k rq rp s = Some s' \<Longrightarrow> finish_inv s \<Longrightarrow> finish_inv s'"
  unfolding targetReply_def Let_def
  by (auto split: list.splits FileRequest.splits if_splits
      elim!: finish_inv_onError finish_inv_doNextTask finish_inv_doRequest_via
      intro: finish_inv_targetReply_progress)

lemma finish_inv_sourceReply:
  "sourceReply rq rp s = Some s' \<Longrightarrow> finish_inv s \<Longrightarrow> finish_inv s'"
  unfolding sourceReply_def
  by (auto split: list.splits FileRequest.splits if_splits
      elim!: finish_inv_onError finish_inv_doRequest_via)

lemma finish_inv_onReply:
  "onReply k tg rq rp s = Some s' \<Longrightarrow> finish_inv s \<Longrightarrow> finish_inv s'"
  unfolding onReply_def
  by (auto split: if_splits elim: finish_inv_targetReply finish_inv_sourceReply)

lemma finish_inv_stop: "finish_inv s \<Longrightarrow> finish_inv (stop s)"
  unfolding stop_def
  by (auto intro!: finish_inv_onFinished finish_inv_emit)

lemma finish_inv_onQueueBuilt:
  "onQueueBuilt c q n s = Some s' \<Longrightarrow> finish_inv s \<Longrightarrow> finish_inv s'"
  unfolding onQueueBuilt_def Let_def
  by (auto split: if_splits elim!: finish_inv_onError finish_inv_doFrontTask
      intro!: finish_inv_onFinished)

lemma finish_inv_step: "step k ev s = Some s' \<Longrightarrow> finish_inv s \<Longrightarrow> finish_inv s'"
  unfolding step_def
  by (auto split: Event.splits if_splits
      elim: finish_inv_onQueueBuilt finish_inv_onReply finish_inv_setAction
      intro!: finish_inv_stop finish_inv_onFinished)

lemma finish_inv_run: "run k evs s = Some s' \<Longrightarrow> finish_inv s \<Longrightarrow> finish_inv s'"
  by (induction evs arbitrary: s) (auto split: option.splits dest: finish_inv_step)

lemma finish_inv_start: "effects s = [] \<Longrightarrow> finish_inv (start a b c cb s)"
  by (auto simp: start_def finish_inv_def emit_def finish_ok_def stop_before_finish_def
      split: option.splits)

text \<open>
  C9. In every execution of a coordinator that has done nothing before \<open>start\<close>,
  whatever events follow \<open>start\<close> and however often they reach \<open>onFinished\<close> (an abort
  chosen by the user, the expiry of the cancel timer, an empty queue, the end of the
  queue, a stop while the queue is built), a finish callback is invoked at most once, and
  the effect directly before its invocation is the window proxy's \<open>stop\<close>.
\<close>

theorem finish_callback_at_most_once:
  assumes "effects s0 = []"
    and "run kMax evs (start source_path target_path items callback s0) = Some s"
  shows "length (filter is_finish (effects s)) \<le> 1 \<and> stop_before_finish (effects s)"
proof -
  have "finish_inv s"
    using finish_inv_run [OF assms(2)] finish_inv_start [OF assms(1)] by blast
  then show ?thesis
    by (auto simp: finish_inv_def finish_ok_def split: option.splits)
qed

theorem finish_callback_at_most_once_witness:
  "effects (FileTransfer_new UPLOADER) = []
   \<and> map_option effects empty_upload
       = Some [window_start, queue_builder_start ''/src'' ''/dst'', window_stop,
               invoke_finish_callback 7, cancel_timer_start]
   \<and> length (filter is_finish (effects (the empty_upload))) \<le> 1
   \<and> stop_before_finish (effects (the empty_upload))"
proof -
  have fresh: "effects (FileTransfer_new UPLOADER) = []"
    by (simp add: FileTransfer_new_def)
  have trace: "map_option effects empty_upload
       = Some [window_start, queue_builder_start ''/src'' ''/dst'', window_stop,
               invoke_finish_callback 7, cancel_timer_start]"
    by (simp add: empty_upload_def transfer_defs stop_def)
  then have ran: "run 1048576 [QueueBuilt FILE_ERROR_SUCCESS [] 0, Stop, CancelTimerExpired]
       (start ''/src'' ''/dst'' [''a''] (Some 7) (FileTransfer_new UPLOADER))
     = Some (the empty_upload)"
    unfolding empty_upload_def by auto
  from finish_callback_at_most_once [OF fresh ran] fresh trace show ?thesis
    by simp
qed

subsection \<open>Sticky actions\<close>

lemma surfaced_update [simp]:
  "surfaced (s\<lparr>queue_builder := b\<rparr>) = surfaced s"
  "surfaced (s\<lparr>tasks := ts\<rparr>) = surfaced s"
  "surfaced (s\<lparr>task_transfered_size := n\<rparr>) = surfaced s"
  "surfaced (s\<lparr>task_percentage := n\<rparr>) = surfaced s"
  "surfaced (s\<lparr>cancel_timer_active := b\<rparr>) = surfaced s"
  "surfaced (s\<lparr>actions := m\<rparr>) = surfaced s"
  "surfaced (s\<lparr>finish_callback := cb\<rparr>) = surfaced s"
  by (simp_all add: surfaced_def)

lemma surfaced_emit: "\<not> is_errorOccurred e \<Longrightarrow> surfaced (emit e s) = surfaced s"
  by (simp add: surfaced_def emit_def)

lemma surfaced_onFinished: "surfaced (onFinished s) = surfaced s"
  by (simp add: onFinished_def surfaced_emit split: option.splits)

lemma surfaced_doRequest_via: "doRequest_via f r s = Some s' \<Longrightarrow> surfaced s' = surfaced s"
  by (auto simp: doRequest_via_def surfaced_emit split: option.splits)

lemma surfaced_doFrontTask: "doFrontTask ov s = Some s' \<Longrightarrow> surfaced s' = surfaced s"
  unfolding doFrontTask_def Let_def
  by (auto split: list.splits if_splits dest!: surfaced_doRequest_via simp: surfaced_emit)

lemma surfaced_doNextTask: "doNextTask s = Some s' \<Longrightarrow> surfaced s' = surfaced s"
  unfolding doNextTask_def Let_def
  by (auto split: if_splits dest!: surfaced_doFrontTask
      simp: surfaced_emit surfaced_onFinished)

lemma surfaced_setAction: "setAction t a s = Some s' \<Longrightarrow> surfaced s' = surfaced s"
  unfolding setAction_def setActionForErrorType_def
  by (cases a)
    (auto dest!: surfaced_doFrontTask surfaced_doNextTask simp: surfaced_onFinished)

lemma actions_emit [simp]: "actions (emit e s) = actions s"
  by (simp add: emit_def)

lemma actions_onFinished [simp]: "actions (onFinished s) = actions s"
  by (simp add: onFinished_def split: option.splits)

lemma actions_doRequest_via: "doRequest_via f r s = Some s' \<Longrightarrow> actions s' = actions s"
  by (auto simp: doRequest_via_def split: option.splits)

lemma actions_doFrontTask: "doFrontTask ov s = Some s' \<Longrightarrow> actions s' = actions s"
  unfolding doFrontTask_def Let_def
  by (auto split: list.splits if_splits dest!: actions_doRequest_via)

lemma actions_doNextTask: "doNextTask s = Some s' \<Longrightarrow> actions s' = actions s"
  unfolding doNextTask_def Let_def
  by (auto split: if_splits dest!: actions_doFrontTask)

lemma actions_setAction:
  "setAction t a s = Some s' \<Longrightarrow>
     actions s' = (if sticky a then (actions s)(t \<mapsto> a) else actions s)"
  unfolding setAction_def setActionForErrorType_def sticky_def
  by (cases a) (auto dest!: actions_doFrontTask actions_doNextTask)

lemma actions_onError: "onError t c p s = Some s' \<Longrightarrow> actions s' = actions s"
  unfolding onError_def
  by (auto split: option.splits dest!: actions_setAction simp: map_upd_triv)

lemma actions_targetReply_progress [simp]:
  "actions (targetReply_progress k n s) = actions s"
  by (simp add: targetReply_progress_def Let_def)

lemma actions_targetReply: "targetReply k rq rp s = Some s' \<Longrightarrow> actions s' = actions s"
  unfolding targetReply_def Let_def
  by (auto split: list.splits FileRequest.splits if_splits
      dest!: actions_onError actions_doNextTask actions_doRequest_via)

lemma actions_sourceReply: "sourceReply rq rp s = Some s' \<Longrightarrow> actions s' = actions s"
  unfolding sourceReply_def
  by (auto split: list.splits FileRequest.splits if_splits
      dest!: actions_onError actions_doRequest_via)

lemma actions_onReply: "onReply k tg rq rp s = Some s' \<Longrightarrow> actions s' = actions s"
  unfolding onReply_def
  by (auto split: if_splits dest: actions_targetReply actions_sourceReply)

lemma actions_stop [simp]: "actions (stop s) = actions s"
  by (simp add: stop_def)

lemma actions_onQueueBuilt: "onQueueBuilt c q n s = Some s' \<Longrightarrow> actions s' = actions s"
  unfolding onQueueBuilt_def Let_def
  by (auto split: if_splits dest!: actions_onError actions_doFrontTask)

lemma actions_step:
  "step k ev s = Some s' \<Longrightarrow>
     actions s' =
       (case ev of
          SetAction t a \<Rightarrow> if sticky a then (actions s)(t \<mapsto> a) else actions s
        | _ \<Rightarrow> actions s)"
  unfolding step_def
  by (auto split: Event.splits if_splits
      dest: actions_onQueueBuilt actions_onReply actions_setAction)

lemma sticky_step:
  assumes "step k ev s = Some s'" and "actions s t = Some a" and "sticky a"
  shows "\<exists>a'. actions s' t = Some a' \<and> sticky a'"
  using actions_step [OF assms(1)] assms(2,3)
  by (auto split: Event.splits if_splits)

lemma sticky_run:
  "run k evs s = Some s' \<Longrightarrow> actions s t = Some a \<Longrightarrow> sticky a \<Longrightarrow>
     \<exists>a'. actions s' t = Some a' \<and> sticky a'"
proof (induction evs arbitrary: s a)
  case Nil
  then show ?case by auto
next
  case (Cons ev evs)
  from Cons.prems(1) obtain s1 where
    s1: "step k ev s = Some s1" and r: "run k evs s1 = Some s'"
    by (auto split: option.splits)
  from sticky_step [OF s1 Cons.prems(2,3)] obtain a1 where
    "actions s1 t = Some a1" "sticky a1"
    by blast
  with Cons.IH [OF r] show ?case by blast
qed

lemma recorded_run:
  "run k evs s = Some s' \<Longrightarrow> \<forall>b. SetAction t b \<notin> set evs \<Longrightarrow>
     actions s' t = actions s t"
proof (induction evs arbitrary: s)
  case Nil
  then show ?case by auto
next
  case (Cons ev evs)
  from Cons.prems(1) obtain s1 where
    s1: "step k ev s = Some s1" and r: "run k evs s1 = Some s'"
    by (auto split: option.splits)
  from Cons.prems(2) have "actions s1 t = actions s t"
    using actions_step [OF s1] by (auto split: Event.splits if_splits)
  moreover from Cons.prems(2) have "\<forall>b. SetAction t b \<notin> set evs" by simp
  ultimately show ?case using Cons.IH [OF r] by simp
qed

text \<open>
  C7. When the user resolves an error of type \<open>t\<close> with \<open>ACTION_SKIP_ALL\<close> or
  \<open>ACTION_REPLACE_ALL\<close> (\<open>sticky a\<close>), then after any events \<open>evs\<close> of the same
  transfer an action of these two is recorded for \<open>t\<close> (the chosen one, unless the
  user has chosen another for \<open>t\<close> in between), and an error of type \<open>t\<close> is resolved
  by \<open>setAction\<close> with the recorded action, which hands no error to the window proxy. A
  plain \<open>ACTION_SKIP\<close> or \<open>ACTION_REPLACE\<close> leaves the recorded actions as they were.
\<close>

theorem sticky_actions:
  "(sticky a \<and> setAction t a s0 = Some s1 \<and> run kMax evs s1 = Some s2 \<longrightarrow>
      (\<exists>a'. sticky a' \<and> actions s2 t = Some a'
          \<and> ((\<forall>b. SetAction t b \<notin> set evs) \<longrightarrow> a' = a)
          \<and> onError t code path s2 = setAction t a' s2
          \<and> (\<forall>s3. onError t code path s2 = Some s3 \<longrightarrow> surfaced s3 = surfaced s2)))
   \<and> ((b = ACTION_SKIP \<or> b = ACTION_REPLACE) \<and> setAction t b s = Some s' \<longrightarrow>
        actions s' = actions s)"
proof (intro conjI impI)
  assume h: "sticky a \<and> setAction t a s0 = Some s1 \<and> run kMax evs s1 = Some s2"
  then have recorded: "actions s1 t = Some a"
    using actions_setAction [of t a s0 s1] by simp
  from sticky_run [of kMax evs s1 s2 t a] h recorded obtain a' where
    a': "actions s2 t = Some a'" "sticky a'" by blast
  have same: "(\<forall>b. SetAction t b \<notin> set evs) \<longrightarrow> a' = a"
    using recorded_run [of kMax evs s1 s2 t] h recorded a' by auto
  have applied: "onError t code path s2 = setAction t a' s2"
    using a' by (simp add: onError_def)
  have quiet: "\<forall>s3. onError t code path s2 = Some s3 \<longrightarrow> surfaced s3 = surfaced s2"
    using applied surfaced_setAction by simp
  from a' same applied quiet
  show "\<exists>a'. sticky a' \<and> actions s2 t = Some a'
          \<and> ((\<forall>b. SetAction t b \<notin> set evs) \<longrightarrow> a' = a)
          \<and> onError t code path s2 = setAction t a' s2
          \<and> (\<forall>s3. onError t code path s2 = Some s3 \<longrightarrow> surfaced s3 = surfaced s2)"
    by blast
next
  assume "(b = ACTION_SKIP \<or> b = ACTION_REPLACE) \<and> setAction t b s = Some s'"
  then show "actions s' = actions s"
    using actions_setAction [of t b s s'] by (auto simp: sticky_def)
qed

theorem sticky_actions_witness:
  "sticky ACTION_REPLACE_ALL
   \<and> setAction ALREADY_EXISTS ACTION_REPLACE_ALL first_collision = Some replace_all_chosen
   \<and> run 1048576 second_upload_events replace_all_chosen = Some second_upload
   \<and> surfaced second_upload =
       [errorOccurred \<lparr>err_type = ALREADY_EXISTS, err_code = FILE_ERROR_PATH_ALREADY_EXISTS,
                       err_path = ''/dst/a''\<rparr>]
   \<and> actions second_upload ALREADY_EXISTS = Some ACTION_REPLACE_ALL
   \<and> onError ALREADY_EXISTS FILE_ERROR_PATH_ALREADY_EXISTS ''/dst/b'' second_upload
       = setAction ALREADY_EXISTS ACTION_REPLACE_ALL second_upload
   \<and> map_option surfaced
         (onError ALREADY_EXISTS FILE_ERROR_PATH_ALREADY_EXISTS ''/dst/b'' second_upload)
       = Some (surfaced second_upload)
   \<and> setAction ALREADY_EXISTS ACTION_REPLACE first_collision \<noteq> None
   \<and> actions (the (setAction ALREADY_EXISTS ACTION_REPLACE first_collision))
       = actions first_collision"
proof -
  have chosen: "sticky ACTION_REPLACE_ALL"
    by (simp add: sticky_def)
  have recorded:
    "setAction ALREADY_EXISTS ACTION_REPLACE_ALL first_collision = Some replace_all_chosen"
    unfolding replace_all_chosen_def first_collision_def
    by (simp add: transfer_defs setAction_def setActionForErrorType_def)
  have later: "run 1048576 second_upload_events replace_all_chosen = Some second_upload"
    unfolding second_upload_def replace_all_chosen_def first_collision_def
    by (simp add: transfer_defs setAction_def setActionForErrorType_def
        second_upload_events_def)
  have untouched: "\<forall>b. SetAction ALREADY_EXISTS b \<notin> set second_upload_events"
    by (simp add: second_upload_events_def)
  have shown: "surfaced second_upload =
       [errorOccurred \<lparr>err_type = ALREADY_EXISTS, err_code = FILE_ERROR_PATH_ALREADY_EXISTS,
                       err_path = ''/dst/a''\<rparr>]"
    unfolding second_upload_def replace_all_chosen_def first_collision_def
    by (simp add: transfer_defs setAction_def setActionForErrorType_def
        second_upload_events_def surfaced_def)
  have resolved:
    "setAction ALREADY_EXISTS ACTION_REPLACE_ALL second_upload \<noteq> None"
    unfolding second_upload_def replace_all_chosen_def first_collision_def
    by (simp add: transfer_defs setAction_def setActionForErrorType_def
        second_upload_events_def)
  have plain: "setAction ALREADY_EXISTS ACTION_REPLACE first_collision \<noteq> None"
    unfolding first_collision_def
    by (simp add: transfer_defs setAction_def)
  then have plain': "setAction ALREADY_EXISTS ACTION_REPLACE first_collision
      = Some (the (setAction ALREADY_EXISTS ACTION_REPLACE first_collision))"
    by simp
  from sticky_actions
    [where a = ACTION_REPLACE_ALL and t = ALREADY_EXISTS and ?s0.0 = first_collision
       and ?s1.0 = replace_all_chosen and kMax = 1048576 and evs = second_upload_events
       and ?s2.0 = second_upload and code = FILE_ERROR_PATH_ALREADY_EXISTS
       and path = "''/dst/b''" and b = ACTION_REPLACE and s = first_collision
       and s' = "the (setAction ALREADY_EXISTS ACTION_REPLACE first_collision)"]
    chosen recorded later untouched plain'
  have "actions second_upload ALREADY_EXISTS = Some ACTION_REPLACE_ALL
    \<and> onError ALREADY_EXISTS FILE_ERROR_PATH_ALREADY_EXISTS ''/dst/b'' second_upload
        = setAction ALREADY_EXISTS ACTION_REPLACE_ALL second_upload
    \<and> (\<forall>s3. onError ALREADY_EXISTS FILE_ERROR_PATH_ALREADY_EXISTS ''/dst/b'' second_upload
            = Some s3 \<longrightarrow> surfaced s3 = surfaced second_upload)
    \<and> actions (the (setAction ALREADY_EXISTS ACTION_REPLACE first_collision))
        = actions first_collision"
    by auto
  with chosen recorded later shown resolved plain show ?thesis
    by auto
qed

section \<open>Properties of the server authenticator\<close>

lemmas handshake_defs =
  anonymous_server_def default_server_def awaiting_response_def ServerAuthenticator_start_def
  ServerAuthenticator_new_def setAnonymousAccess_def setPrivateKey_def kIvSize_def
  test_env_def test_parse_ClientHello_def test_parse_SessionResponse_def test_channel_def
  onClientHello_def onClientHello_reply_def send_ServerHello_def onFailed_def sent_by_def

subsection \<open>Configuration\<close>

text \<open>
  C8. A call of \<open>setPrivateKey\<close> or of \<open>setAnonymousAccess\<close> on an authenticator
  whose state is not \<open>STOPPED\<close> returns false and leaves the authenticator, and so the
  key pair, the IV, the session types and the anonymous-access setting, as it was.
\<close>

theorem setters_rejected_unless_stopped:
  "state a \<noteq> STOPPED \<Longrightarrow>
     setPrivateKey env private_key a = (False, a)
     \<and> setAnonymousAccess access types a = (False, a)"
  by (simp add: setPrivateKey_def setAnonymousAccess_def)

theorem setters_rejected_unless_stopped_witness:
  "state anonymous_server = PENDING
   \<and> setPrivateKey (test_env True) [4, 5, 6] anonymous_server = (False, anonymous_server)
   \<and> setAnonymousAccess DISABLE 0 anonymous_server = (False, anonymous_server)"
proof -
  have pending: "state anonymous_server = PENDING"
    by (simp add: handshake_defs)
  then have running: "state anonymous_server \<noteq> STOPPED"
    by simp
  from setters_rejected_unless_stopped [OF running, of "test_env True" "[4, 5, 6]" DISABLE 0]
    pending
  show ?thesis by simp
qed

subsection \<open>The client's hello\<close>

text \<open>
  C1. A \<open>ClientHello\<close> with a supported cipher and the anonymous identify method should
  be answered with a \<open>ServerHello\<close> when anonymous access is enabled, and fail the
  authenticator otherwise. \<open>onClientHello\<close> tests \<open>anonymous_access_ == ENABLE\<close>
  under the comment \<open>If anonymous method is not allowed\<close> and fails in that case. So the
  started authenticator with anonymous access enabled fails on such a hello (its channel is
  destroyed, nothing was sent, the delegate is notified), and the started authenticator
  with anonymous access disabled answers it and moves to \<open>SEND_SERVER_HELLO\<close>.
\<close>

theorem anonymous_access_test_is_inverted:
  "state anonymous_server = PENDING
   \<and> anonymous_access anonymous_server = ENABLE
   \<and> parse_ClientHello (test_env False) [2, 1]
       = Some \<lparr>ch_encryption = 2, ch_identify = IDENTIFY_ANONYMOUS, ch_iv = replicate 12 7,
               ch_public_key = replicate 32 9\<rparr>
   \<and> map_option state (onClientHello (test_env False) [2, 1] anonymous_server) = Some FAILED
   \<and> map_option channel (onClientHello (test_env False) [2, 1] anonymous_server) = Some None
   \<and> map_option internal_state (onClientHello (test_env False) [2, 1] anonymous_server)
       = Some READ_CLIENT_HELLO
   \<and> map_option onComplete_calls (onClientHello (test_env False) [2, 1] anonymous_server)
       = Some 1
   \<and> state default_server = PENDING
   \<and> anonymous_access default_server = DISABLE
   \<and> map_option state (onClientHello (test_env False) [2, 1] default_server) = Some PENDING
   \<and> map_option internal_state (onClientHello (test_env False) [2, 1] default_server)
       = Some SEND_SERVER_HELLO
   \<and> sent_by (onClientHello (test_env False) [2, 1] default_server)
       = [\<lparr>sh_encryption = ENCRYPTION_CHACHA20_POLY1305, sh_iv = []\<rparr>]"
  by (simp add: handshake_defs)

lemma channel_onFailed: "channel (onFailed a) = None"
  by (simp add: onFailed_def split: option.splits)

lemma send_ServerHello_sent:
  assumes "send_ServerHello env client_hello iv a = Some a'" and "channel a = Some ch"
  shows "channel a' =
     Some (ch\<lparr>sent := sent ch @
        [\<lparr>sh_encryption =
            (if ch_encryption client_hello AND encryption_value env ENCRYPTION_AES256_GCM \<noteq> 0
                \<and> hasAesNi env
             then ENCRYPTION_AES256_GCM else ENCRYPTION_CHACHA20_POLY1305),
          sh_iv = iv\<rparr>]\<rparr>)"
  using assms by (auto simp: send_ServerHello_def Let_def split: option.splits)

lemma onClientHello_reply_sent:
  assumes "onClientHello_reply env client_hello a = Some a'"
    and "channel a = Some ch" and "channel a' = Some ch'"
  shows "\<exists>iv. ch' = ch\<lparr>sent := sent ch @
        [\<lparr>sh_encryption =
            (if ch_encryption client_hello AND encryption_value env ENCRYPTION_AES256_GCM \<noteq> 0
                \<and> hasAesNi env
             then ENCRYPTION_AES256_GCM else ENCRYPTION_CHACHA20_POLY1305),
          sh_iv = iv\<rparr>]\<rparr>"
proof -
  from assms obtain iv a0 where
    s: "send_ServerHello env client_hello iv a0 = Some a'" and c: "channel a0 = Some ch"
    unfolding onClientHello_reply_def Let_def
    by (auto split: if_splits simp: channel_onFailed)
  from send_ServerHello_sent [OF s c] assms(3) show ?thesis by auto
qed

text \<open>
  C5, amended. Whenever \<open>onClientHello\<close> answers a \<open>ClientHello\<close> (the channel is
  still there afterwards), it has sent exactly one \<open>ServerHello\<close>, whose cipher is
  \<open>ENCRYPTION_AES256_GCM\<close> if and only if the client advertised it and the CPU reports
  AES-NI, and \<open>ENCRYPTION_CHACHA20_POLY1305\<close> in every other case. The client is known
  to have advertised \<open>ENCRYPTION_CHACHA20_POLY1305\<close> only when it did not advertise
  \<open>ENCRYPTION_AES256_GCM\<close>.
\<close>

theorem chosen_cipher:
  assumes "parse_ClientHello env buffer = Some client_hello"
    and "channel a = Some ch"
    and "onClientHello env buffer a = Some a'"
    and "channel a' = Some ch'"
  shows "\<exists>server_hello. sent ch' = sent ch @ [server_hello]
     \<and> (sh_encryption server_hello = ENCRYPTION_AES256_GCM \<longleftrightarrow>
          ch_encryption client_hello AND encryption_value env ENCRYPTION_AES256_GCM \<noteq> 0
          \<and> hasAesNi env)
     \<and> (sh_encryption server_hello \<noteq> ENCRYPTION_AES256_GCM \<longrightarrow>
          sh_encryption server_hello = ENCRYPTION_CHACHA20_POLY1305)
     \<and> (ch_encryption client_hello AND encryption_value env ENCRYPTION_AES256_GCM = 0 \<longrightarrow>
          ch_encryption client_hello AND encryption_value env ENCRYPTION_CHACHA20_POLY1305
            \<noteq> 0)"
proof -
  from assms have adv:
    "\<not> (ch_encryption client_hello AND encryption_value env ENCRYPTION_AES256_GCM = 0
        \<and> ch_encryption client_hello AND encryption_value env ENCRYPTION_CHACHA20_POLY1305
            = 0)"
    by (auto simp: onClientHello_def channel_onFailed)
  from assms adv obtain a1 where
    r: "onClientHello_reply env client_hello a1 = Some a'" and c: "channel a1 = Some ch"
    unfolding onClientHello_def Let_def
    by (auto split: Identify.splits if_splits simp: channel_onFailed)
  from onClientHello_reply_sent [OF r c assms(4)] adv show ?thesis
    by auto
qed

theorem chosen_cipher_witness:
  "parse_ClientHello (test_env True) [3, 0]
     = Some \<lparr>ch_encryption = 3, ch_identify = IDENTIFY_SRP, ch_iv = replicate 12 7,
             ch_public_key = replicate 32 9\<rparr>
   \<and> channel default_server = Some \<lparr>sent = [], has_listener = True, paused = False\<rparr>
   \<and> map_option channel (onClientHello (test_env True) [3, 0] default_server)
       = Some (Some \<lparr>sent = [\<lparr>sh_encryption = ENCRYPTION_AES256_GCM, sh_iv = []\<rparr>],
                      has_listener = True, paused = False\<rparr>)
   \<and> (3 :: 32 word) AND encryption_value (test_env True) ENCRYPTION_AES256_GCM \<noteq> 0
   \<and> hasAesNi (test_env True)"
proof -
  have parsed: "parse_ClientHello (test_env True) [3, 0]
     = Some \<lparr>ch_encryption = 3, ch_identify = IDENTIFY_SRP, ch_iv = replicate 12 7,
             ch_public_key = replicate 32 9\<rparr>"
    by (simp add: handshake_defs)
  have before: "channel default_server = Some \<lparr>sent = [], has_listener = True, paused = False\<rparr>"
    by (simp add: handshake_defs)
  have "onClientHello (test_env True) [3, 0] default_server \<noteq> None"
    by (simp add: handshake_defs)
  then obtain a' where answered: "onClientHello (test_env True) [3, 0] default_server = Some a'"
    by auto
  then have "channel a' \<noteq> None"
    by (auto simp: handshake_defs)
  then obtain ch' where after: "channel a' = Some ch'"
    by auto
  from chosen_cipher [OF parsed before answered after] obtain server_hello where
    "sent ch' = [server_hello]" "sh_encryption server_hello = ENCRYPTION_AES256_GCM"
    by (auto simp: test_env_def)
  moreover from answered after have "has_listener ch'" "\<not> paused ch'" "sh_iv (hd (sent ch')) = []"
    by (auto simp: handshake_defs)
  ultimately have "ch' = \<lparr>sent = [\<lparr>sh_encryption = ENCRYPTION_AES256_GCM, sh_iv = []\<rparr>],
                      has_listener = True, paused = False\<rparr>"
    by (cases ch', cases server_hello) auto
  with parsed before answered after show ?thesis
    by (simp add: test_env_def)
qed

text \<open>
  The claim as stated fails for a client that advertises \<open>ENCRYPTION_AES256_GCM\<close> alone
  on a CPU without AES-NI: the \<open>ServerHello\<close> carries \<open>ENCRYPTION_CHACHA20_POLY1305\<close>,
  which the client did not advertise.
\<close>

theorem chacha_chosen_though_not_advertised:
  "parse_ClientHello (test_env False) [1, 0]
     = Some \<lparr>ch_encryption = 1, ch_identify = IDENTIFY_SRP, ch_iv = replicate 12 7,
             ch_public_key = replicate 32 9\<rparr>
   \<and> (1 :: 32 word) AND encryption_value (test_env False) ENCRYPTION_AES256_GCM \<noteq> 0
   \<and> (1 :: 32 word) AND encryption_value (test_env False) ENCRYPTION_CHACHA20_POLY1305 = 0
   \<and> sent_by (onClientHello (test_env False) [1, 0] default_server)
       = [\<lparr>sh_encryption = ENCRYPTION_CHACHA20_POLY1305, sh_iv = []\<rparr>]"
  by (simp add: handshake_defs)

subsection \<open>The session response\<close>

text \<open>
  C6. A \<open>SessionResponse\<close> delivered by the channel (so the channel exists; it is the
  message \<open>onMessageReceived\<close> hands to \<open>onSessionResponse\<close> in the internal state
  \<open>READ_SESSION_RESPONSE\<close>) always ends the handshake: the authenticator reaches
  \<open>SUCCESS\<close> and notifies the delegate if and only if the message parses, exactly one
  bit of its session type is set and that bit is among the allowed session types; in
  every other case it reaches \<open>FAILED\<close>.
\<close>

theorem session_response_outcome:
  assumes "channel a = Some ch"
  shows "\<exists>a'. onSessionResponse env buffer a = Some a'
     \<and> ((state a' = SUCCESS \<and> onComplete_calls a' = Suc (onComplete_calls a)) \<longleftrightarrow>
          (\<exists>r. parse_SessionResponse env buffer = Some r
             \<and> bitset_count (sr_session_type r) = 1
             \<and> session_types a AND sr_session_type r \<noteq> 0))
     \<and> (\<not> (\<exists>r. parse_SessionResponse env buffer = Some r
             \<and> bitset_count (sr_session_type r) = 1
             \<and> session_types a AND sr_session_type r \<noteq> 0) \<longrightarrow> state a' = FAILED)"
  using assms
  by (auto simp: onSessionResponse_def onFailed_def Let_def split: option.splits)

lemma bitset_count_examples:
  "bitset_count 1 = 1" "bitset_count 2 = 1" "bitset_count 3 = 2"
  by (simp_all add: bitset_count_def upt_rec)

theorem session_response_outcome_witness:
  "channel awaiting_response = Some \<lparr>sent = [], has_listener = True, paused = False\<rparr>
   \<and> session_types awaiting_response = 2
   \<and> map_option state (onSessionResponse (test_env True) [2] awaiting_response) = Some SUCCESS
   \<and> map_option onComplete_calls (onSessionResponse (test_env True) [2] awaiting_response)
       = Some 1
   \<and> map_option state (onSessionResponse (test_env True) [3] awaiting_response) = Some FAILED
   \<and> map_option state (onSessionResponse (test_env True) [1] awaiting_response) = Some FAILED
   \<and> map_option state (onSessionResponse (test_env True) [] awaiting_response) = Some FAILED"
proof -
  have delivered:
    "channel awaiting_response = Some \<lparr>sent = [], has_listener = True, paused = False\<rparr>"
    by (simp add: handshake_defs)
  have allowed: "session_types awaiting_response = 2" "onComplete_calls awaiting_response = 0"
    by (simp_all add: handshake_defs)
  have parses:
    "parse_SessionResponse (test_env True) [2]
       = Some \<lparr>sr_session_type = 2, sr_version = (2, 0, 0)\<rparr>"
    "parse_SessionResponse (test_env True) [3]
       = Some \<lparr>sr_session_type = 3, sr_version = (2, 0, 0)\<rparr>"
    "parse_SessionResponse (test_env True) [1]
       = Some \<lparr>sr_session_type = 1, sr_version = (2, 0, 0)\<rparr>"
    "parse_SessionResponse (test_env True) [] = None"
    by (simp_all add: handshake_defs)
  from session_response_outcome [OF delivered, of "test_env True" "[2]"]
    session_response_outcome [OF delivered, of "test_env True" "[3]"]
    session_response_outcome [OF delivered, of "test_env True" "[1]"]
    session_response_outcome [OF delivered, of "test_env True" "[]"]
    delivered allowed parses
  show ?thesis
    by (auto simp: bitset_count_examples)
qed

end
